theory Spec2Isabelle
  imports Complex_Main
begin

section \<open>Numbers as numpy computes with them\<close>

text \<open>
  The arrays of \<^verbatim>\<open>SizeSpectrum.py\<close> hold \<^verbatim>\<open>float64\<close> values. A value is modelled as an
  exact real number or one of the three IEEE special values. Rounding and overflow of
  finite values are not modelled (finite arithmetic is exact), and the two zeros are not
  told apart (zero counts as \<open>+0\<close>). numpy array arithmetic never raises on a division
  by zero: it yields \<open>inf\<close> or \<open>nan\<close> and goes on.
\<close>

datatype npfloat = Fin real | PInf | NInf | NaN

fun is_fin :: "npfloat \<Rightarrow> bool" where
  "is_fin (Fin r) = True"
| "is_fin PInf = False"
| "is_fin NInf = False"
| "is_fin NaN = False"

fun fneg :: "npfloat \<Rightarrow> npfloat" where
  "fneg (Fin a) = Fin (- a)"
| "fneg PInf = NInf"
| "fneg NInf = PInf"
| "fneg NaN = NaN"

fun fadd :: "npfloat \<Rightarrow> npfloat \<Rightarrow> npfloat" where
  "fadd (Fin a) (Fin b) = Fin (a + b)"
| "fadd NaN y = NaN"
| "fadd x NaN = NaN"
| "fadd PInf NInf = NaN"
| "fadd NInf PInf = NaN"
| "fadd PInf y = PInf"
| "fadd x PInf = PInf"
| "fadd NInf y = NInf"
| "fadd x NInf = NInf"

definition fsub :: "npfloat \<Rightarrow> npfloat \<Rightarrow> npfloat" where
  "fsub x y = fadd x (fneg y)"

fun fmul :: "npfloat \<Rightarrow> npfloat \<Rightarrow> npfloat" where
  "fmul (Fin a) (Fin b) = Fin (a * b)"
| "fmul NaN y = NaN"
| "fmul x NaN = NaN"
| "fmul PInf (Fin b) = (if b = 0 then NaN else if 0 < b then PInf else NInf)"
| "fmul NInf (Fin b) = (if b = 0 then NaN else if 0 < b then NInf else PInf)"
| "fmul (Fin a) PInf = (if a = 0 then NaN else if 0 < a then PInf else NInf)"
| "fmul (Fin a) NInf = (if a = 0 then NaN else if 0 < a then NInf else PInf)"
| "fmul PInf PInf = PInf"
| "fmul PInf NInf = NInf"
| "fmul NInf PInf = NInf"
| "fmul NInf NInf = PInf"

fun fdiv :: "npfloat \<Rightarrow> npfloat \<Rightarrow> npfloat" where
  "fdiv (Fin a) (Fin b) =
     (if b = 0 then (if a = 0 then NaN else if 0 < a then PInf else NInf)
      else Fin (a / b))"
| "fdiv NaN y = NaN"
| "fdiv x NaN = NaN"
| "fdiv (Fin a) PInf = Fin 0"
| "fdiv (Fin a) NInf = Fin 0"
| "fdiv PInf (Fin b) = (if 0 \<le> b then PInf else NInf)"
| "fdiv NInf (Fin b) = (if 0 \<le> b then NInf else PInf)"
| "fdiv PInf PInf = NaN"
| "fdiv PInf NInf = NaN"
| "fdiv NInf PInf = NaN"
| "fdiv NInf NInf = NaN"

text \<open>\<^verbatim>\<open>x > y\<close>: every comparison with \<open>nan\<close> is false.\<close>

fun fgt :: "npfloat \<Rightarrow> npfloat \<Rightarrow> bool" where
  "fgt (Fin a) (Fin b) = (b < a)"
| "fgt NaN y = False"
| "fgt x NaN = False"
| "fgt PInf PInf = False"
| "fgt PInf y = True"
| "fgt x PInf = False"
| "fgt NInf y = False"
| "fgt x NInf = True"

text \<open>\<^verbatim>\<open>x != y\<close>: true as soon as one side is \<open>nan\<close>.\<close>

definition fne :: "npfloat \<Rightarrow> npfloat \<Rightarrow> bool" where
  "fne x y = (x = NaN \<or> y = NaN \<or> x \<noteq> y)"

text \<open>\<^verbatim>\<open>a.sum()\<close> of a flat array, left to right from \<open>0.0\<close>.\<close>

definition fsum :: "npfloat list \<Rightarrow> npfloat" where
  "fsum xs = foldl fadd (Fin 0) xs"

section \<open>Arrays\<close>

text \<open>
  A 2-D array is a list of rows. The caller's image has an integer or a floating dtype;
  \<^verbatim>\<open>img.astype(float)\<close> turns the first into the second.
\<close>

type_synonym image = "npfloat list list"

datatype ndarray = IntImage "int list list" | FloatImage image

fun astype_float :: "ndarray \<Rightarrow> image" where
  "astype_float (IntImage rows) = map (map (\<lambda>k. Fin (real_of_int k))) rows"
| "astype_float (FloatImage rows) = rows"

text \<open>\<^verbatim>\<open>img.sum()\<close> and \<^verbatim>\<open>img.mean()\<close> over all pixels; the mean of an empty array is
  \<open>0.0 / 0\<close>, that is \<open>nan\<close>.\<close>

definition image_sum :: "image \<Rightarrow> npfloat" where
  "image_sum img = fsum (concat img)"

definition image_mean :: "image \<Rightarrow> npfloat" where
  "image_mean img = fdiv (image_sum img) (Fin (real (length (concat img))))"

text \<open>\<^verbatim>\<open>a - b\<close> on two arrays of one shape, pixel by pixel.\<close>

definition image_sub :: "image \<Rightarrow> image \<Rightarrow> image" where
  "image_sub a b = map2 (map2 fsub) a b"

section \<open>The library primitives\<close>

text \<open>
  \<^verbatim>\<open>rescale\<close>, \<^verbatim>\<open>rolling_ball\<close> and \<^verbatim>\<open>area_opening\<close> come from scikit-image and are not part
  of the repository: the model takes them as parameters, total functions from an image and
  a number to an image. \<^verbatim>\<open>rolling_ball\<close> returns an array of the shape of its argument.
\<close>

record skimage =
  rescale :: "image \<Rightarrow> npfloat \<Rightarrow> image"
  rolling_ball :: "image \<Rightarrow> npfloat \<Rightarrow> image"
  area_opening :: "image \<Rightarrow> npfloat \<Rightarrow> image"

text \<open>
  Modelled from the spec: \<^verbatim>\<open>np.trapz(y, x=x)\<close> belongs to numpy; it is the trapezoidal rule
  of step 8, computed as numpy does, \<^verbatim>\<open>(diff(x) * (y[1:] + y[:-1]) / 2.0).sum()\<close>. The code
  calls it on two arrays of one length.
\<close>

fun trapz_terms :: "npfloat list \<Rightarrow> npfloat list \<Rightarrow> npfloat list" where
  "trapz_terms (y0 # y1 # ys) (x0 # x1 # xs) =
     fdiv (fmul (fsub x1 x0) (fadd y1 y0)) (Fin 2) # trapz_terms (y1 # ys) (x1 # xs)"
| "trapz_terms ys xs = []"

definition trapz :: "npfloat list \<Rightarrow> npfloat list \<Rightarrow> npfloat" where
  "trapz y x = fsum (trapz_terms y x)"

section \<open>Python's range\<close>

datatype error = ValueError

text \<open>
  \<^verbatim>\<open>list(range(start, stop, step))\<close>: a zero step raises \<^verbatim>\<open>ValueError\<close>; otherwise the
  length is the one CPython computes and the k-th element is \<open>start + k * step\<close>.
\<close>

definition range_length :: "int \<Rightarrow> int \<Rightarrow> int \<Rightarrow> nat" where
  "range_length start stop step =
     (let lo = (if 0 < step then start else stop);
          hi = (if 0 < step then stop else start);
          st = (if 0 < step then step else - step)
      in if hi \<le> lo then 0 else nat ((hi - lo - 1) div st + 1))"

definition py_range :: "int \<Rightarrow> int \<Rightarrow> int \<Rightarrow> error + int list" where
  "py_range start stop step =
     (if step = 0 then Inl ValueError
      else Inr (map (\<lambda>k. start + int k * step) [0 ..< range_length start stop step]))"

section \<open>SizeSpectrum.py\<close>

text \<open>\<^verbatim>\<open>remove_background(img, d)\<close>, lines 7 to 20.\<close>

definition remove_background :: "skimage \<Rightarrow> ndarray \<Rightarrow> npfloat \<Rightarrow> image" where
  "remove_background P img d =
     (let r = fdiv d (Fin 2);
          bgimg = rolling_ball P (astype_float img) r
      in image_sub (astype_float img) bgimg)"

text \<open>\<^verbatim>\<open>np.pi * (d / 2) ** 2\<close>, line 95.\<close>

definition circle_area :: "npfloat \<Rightarrow> npfloat" where
  "circle_area d = (let h = fdiv d (Fin 2) in fmul (Fin pi) (fmul h h))"

text \<open>
  The loop of lines 93 to 98 over \<^verbatim>\<open>enumerate(diams)\<close>. The state is the pair of
  \<^verbatim>\<open>curint\<close> and the array \<^verbatim>\<open>gs\<close>; \<open>i\<close> is the index of the next diameter.
\<close>

fun sweep :: "(image \<Rightarrow> npfloat \<Rightarrow> image) \<Rightarrow> image \<Rightarrow> npfloat list \<Rightarrow> nat \<Rightarrow>
    npfloat \<times> npfloat list \<Rightarrow> npfloat \<times> npfloat list" where
  "sweep ao img [] i (curint, gs) = (curint, gs)"
| "sweep ao img (d # ds) i (curint, gs) =
     (let prevint = curint;
          area = circle_area d;
          wrk = ao img area;
          curint' = image_sum wrk
      in sweep ao img ds (Suc i) (curint', gs[i := fsub prevint curint']))"

text \<open>
  The local variables of \<^verbatim>\<open>calc_size_spectrum\<close> when it returns. A variable that the code
  assigns twice has one field for each value a claim speaks of.
\<close>

record locals =
  diams_swept :: "npfloat list"
  origmean :: npfloat
  img_swept :: image
  sum0 :: npfloat
  gs_raw :: "npfloat list"
  gs_pct :: "npfloat list"
  diams_out :: "npfloat list"
  z_int :: npfloat
  norm_gs :: "npfloat list"

text \<open>\<^verbatim>\<open>calc_size_spectrum(img, scale, step, end, bg_diam)\<close>, lines 66 to 109.\<close>

definition calc_size_spectrum_locals ::
    "skimage \<Rightarrow> ndarray \<Rightarrow> npfloat \<Rightarrow> int \<Rightarrow> int \<Rightarrow> npfloat \<Rightarrow> error + locals" where
  "calc_size_spectrum_locals P img0 scale step endv bg_diam =
     (case py_range step endv step of
        Inl e \<Rightarrow> Inl e
      | Inr rng \<Rightarrow>
         (let diams1 = map (\<lambda>k. Fin (real_of_int k)) (1 # rng);
              diams2 = map (\<lambda>d. fmul d scale) diams1;
              img1 = astype_float img0;
              origmean' = image_mean img1;
              img2 = (if fne scale (Fin 1) then rescale P img1 scale else img1);
              img3 = (if fgt bg_diam (Fin 0)
                      then remove_background P (FloatImage img2) (fmul bg_diam scale)
                      else img2);
              Nsteps = length diams2;
              gs0 = replicate Nsteps (Fin 0);
              sum0' = image_sum img3;
              (curint, gs1) = sweep (area_opening P) img3 diams2 0 (sum0', gs0);
              gs2 = map (\<lambda>g. fmul (fdiv g sum0') (Fin 100)) gs1;
              diams3 = map (\<lambda>d. fdiv d scale) diams2;
              z' = trapz gs2 diams3;
              norm_gs' = map (\<lambda>g. fmul origmean' (fdiv g z')) gs2
          in Inr \<lparr> diams_swept = diams2, origmean = origmean', img_swept = img3,
                   sum0 = sum0', gs_raw = gs1, gs_pct = gs2, diams_out = diams3,
                   z_int = z',
                   norm_gs = norm_gs' \<rparr>))"

text \<open>The value returned on line 111: \<^verbatim>\<open>(diams, norm_gs)\<close>.\<close>

definition calc_size_spectrum ::
    "skimage \<Rightarrow> ndarray \<Rightarrow> npfloat \<Rightarrow> int \<Rightarrow> int \<Rightarrow> npfloat \<Rightarrow>
     error + (npfloat list \<times> npfloat list)" where
  "calc_size_spectrum P img0 scale step endv bg_diam =
     (case calc_size_spectrum_locals P img0 scale step endv bg_diam of
        Inl e \<Rightarrow> Inl e
      | Inr L \<Rightarrow> Inr (diams_out L, norm_gs L))"

section \<open>Auxiliary definitions for the statements\<close>

text \<open>
  The differences \<open>prevint - curint\<close> written as a list: \<open>c\<close> is the running sum that the
  next step starts from, and each opening is taken of the same image.
\<close>

fun step_differences ::
    "(image \<Rightarrow> npfloat \<Rightarrow> image) \<Rightarrow> image \<Rightarrow> npfloat \<Rightarrow> npfloat list \<Rightarrow> npfloat list" where
  "step_differences ao img c [] = []"
| "step_differences ao img c (d # ds) =
     fsub c (image_sum (ao img (circle_area d)))
       # step_differences ao img (image_sum (ao img (circle_area d))) ds"

text \<open>
  The image that the loop sweeps, as lines 75 to 82 leave it: converted, rescaled unless
  \<open>scale\<close> is 1, and background-corrected when \<open>bg_diam\<close> is positive.
\<close>

definition swept_image :: "skimage \<Rightarrow> ndarray \<Rightarrow> npfloat \<Rightarrow> npfloat \<Rightarrow> image" where
  "swept_image P img0 scale bg_diam =
     (let img2 = (if fne scale (Fin 1) then rescale P (astype_float img0) scale
                  else astype_float img0)
      in if fgt bg_diam (Fin 0)
         then remove_background P (FloatImage img2) (fmul bg_diam scale)
         else img2)"

text \<open>
  Primitives for the concrete runs below. The first leaves every image as it is, which is
  what scikit-image computes for the background under a ball of radius 0 (the ball touches
  the surface everywhere, so the background is the image) and for the area opening of a
  constant image.
\<close>

definition unchanged :: skimage where
  "unchanged = \<lparr> rescale = (\<lambda>img s. img), rolling_ball = (\<lambda>img r. img),
                 area_opening = (\<lambda>img a. img) \<rparr>"

text \<open>
  The second has the area opening of an image whose only bright component is one pixel on
  a zero background: a threshold above 1 flattens the pixel, a smaller one keeps the
  image.
\<close>

definition single_pixel :: skimage where
  "single_pixel = \<lparr> rescale = (\<lambda>img s. img), rolling_ball = (\<lambda>img r. img),
     area_opening = (\<lambda>img a. if fgt a (Fin 1) then map (map (\<lambda>p. Fin 0)) img else img) \<rparr>"

text \<open>
  A run on a 2 by 2 image with one bright pixel, unscaled and without background
  removal, with \<open>step = 2\<close> and \<open>end = 5\<close>: the probed diameters are 1, 2 and 4, and
  the pixel is lost at diameter 2.
\<close>

definition example_image :: ndarray where
  "example_image = FloatImage [[Fin 0, Fin 3], [Fin 0, Fin 0]]"

definition example_locals :: locals where
  "example_locals =
     \<lparr> diams_swept = [Fin 1, Fin 2, Fin 4], origmean = Fin (3 / 4),
       img_swept = [[Fin 0, Fin 3], [Fin 0, Fin 0]], sum0 = Fin 3,
       gs_raw = [Fin 0, Fin 3, Fin 0], gs_pct = [Fin 0, Fin 100, Fin 0],
       diams_out = [Fin 1, Fin 2, Fin 4], z_int = Fin 150,
       norm_gs = [Fin 0, Fin (1 / 2), Fin 0] \<rparr>"

text \<open>
  The same image at \<open>scale = 1/2\<close> with \<open>step = 2\<close> and \<open>end = 7\<close>, under a
  \<^verbatim>\<open>rescale\<close> that hands the image back as it is: the swept diameters are 1/2, 1, 2
  and 3, the returned ones 1, 2, 4 and 6.
\<close>

definition example_locals_half :: locals where
  "example_locals_half =
     \<lparr> diams_swept = [Fin (1 / 2), Fin 1, Fin 2, Fin 3], origmean = Fin (3 / 4),
       img_swept = [[Fin 0, Fin 3], [Fin 0, Fin 0]], sum0 = Fin 3,
       gs_raw = [Fin 0, Fin 0, Fin 3, Fin 0], gs_pct = [Fin 0, Fin 0, Fin 100, Fin 0],
       diams_out = [Fin 1, Fin 2, Fin 4, Fin 6], z_int = Fin 200,
       norm_gs = [Fin 0, Fin 0, Fin (3 / 8), Fin 0] \<rparr>"

text \<open>The all-zero 50 by 50 image with \<open>step = 5\<close> and \<open>end = 20\<close>.\<close>

definition zero_locals :: locals where
  "zero_locals =
     \<lparr> diams_swept = [Fin 1, Fin 5, Fin 10, Fin 15], origmean = Fin 0,
       img_swept = replicate 50 (replicate 50 (Fin 0)), sum0 = Fin 0,
       gs_raw = [Fin 0, Fin 0, Fin 0, Fin 0], gs_pct = [NaN, NaN, NaN, NaN],
       diams_out = [Fin 1, Fin 5, Fin 10, Fin 15], z_int = NaN,
       norm_gs = [NaN, NaN, NaN, NaN] \<rparr>"



section \<open>Finite and special values\<close>


lemma not_fin_fdiv_zero: "\<not> is_fin (fdiv x (Fin 0))"
  by (cases x) simp_all

lemma is_fin_fmul: "is_fin (fmul x y) \<longleftrightarrow> is_fin x \<and> is_fin y"
  by (cases x; cases y) simp_all

lemma is_fin_fdiv_num: "is_fin (fdiv x y) \<Longrightarrow> is_fin x"
  by (cases x; cases y) (simp_all split: if_splits)







lemma fsum_zeros: "set xs \<subseteq> {Fin 0} \<Longrightarrow> fsum xs = Fin 0"
  unfolding fsum_def by (induction xs) auto


section \<open>The trapezoidal rule on finite values\<close>






section \<open>The loop in closed form\<close>

lemma length_step_differences: "length (step_differences ao img c ds) = length ds"
  by (induction ds arbitrary: c) auto

lemma sweep_closed:
  "i + length ds \<le> length gs \<Longrightarrow>
   sweep ao img ds i (c, gs) =
     (if ds = [] then c else image_sum (ao img (circle_area (last ds))),
      take i gs @ step_differences ao img c ds @ drop (i + length ds) gs)"
proof (induction ds arbitrary: i c gs)
  case Nil
  then show ?case by simp
next
  case (Cons d ds)
  let ?c = "image_sum (ao img (circle_area d))"
  let ?gs = "gs[i := fsub c ?c]"
  from Cons.prems have i: "i < length gs" and le: "Suc i + length ds \<le> length ?gs"
    by simp_all
  have tk: "take (Suc i) ?gs = take i gs @ [fsub c ?c]"
    using i by (simp add: take_Suc_conv_app_nth)
  have dr: "drop (Suc i + length ds) ?gs = drop (i + length (d # ds)) gs"
    by simp
  show ?case
    using Cons.IH [OF le, of ?c] tk dr by (simp add: Let_def)
qed

lemma sweep_from_zero:
  "n = length ds \<Longrightarrow> sweep ao img ds 0 (c, replicate n v) =
     (if ds = [] then c else image_sum (ao img (circle_area (last ds))),
      step_differences ao img c ds)"
  using sweep_closed [of 0 ds "replicate (length ds) v" ao img c] by simp

lemma step_differences_nth:
  "i < length ds \<Longrightarrow>
   step_differences ao img c ds ! i =
     fsub (if i = 0 then c else image_sum (ao img (circle_area (ds ! (i - 1)))))
          (image_sum (ao img (circle_area (ds ! i))))"
proof (induction ds arbitrary: i c)
  case Nil
  then show ?case by simp
next
  case (Cons d ds)
  show ?case
  proof (cases i)
    case 0
    then show ?thesis by simp
  next
    case (Suc j)
    with Cons.prems have j: "j < length ds" by simp
    show ?thesis using Cons.IH [OF j] Suc by (cases j) simp_all
  qed
qed


section \<open>The local variables, one by one\<close>

lemma range_length_multiples:
  assumes "0 < step" "step < endv"
  shows "range_length step endv step = nat ((endv - 1) div step)"
proof -
  have "(endv - step - 1) div step + 1 = (endv - 1) div step"
    using assms div_add_self2 [of step "endv - step - 1"] by (simp add: algebra_simps)
  then show ?thesis using assms by (simp add: range_length_def)
qed

lemma locals_unfold:
  assumes "step \<noteq> 0"
  shows "calc_size_spectrum_locals P img0 scale step endv bg_diam =
    (let rng = map (\<lambda>k. step + int k * step) [0 ..< range_length step endv step];
         ds = map (\<lambda>d. fmul d scale) (map (\<lambda>k. Fin (real_of_int k)) (1 # rng));
         img = swept_image P img0 scale bg_diam;
         g1 = step_differences (area_opening P) img (image_sum img) ds;
         g2 = map (\<lambda>g. fmul (fdiv g (image_sum img)) (Fin 100)) g1;
         ds' = map (\<lambda>d. fdiv d scale) ds
     in Inr \<lparr> diams_swept = ds, origmean = image_mean (astype_float img0), img_swept = img,
              sum0 = image_sum img, gs_raw = g1, gs_pct = g2, diams_out = ds',
              z_int = trapz g2 ds',
              norm_gs = map (\<lambda>g. fmul (image_mean (astype_float img0))
                                    (fdiv g (trapz g2 ds'))) g2 \<rparr>)"
proof -
  have sw: "\<And>img ds c. sweep (area_opening P) img ds 0 (c, replicate (length ds) (Fin 0)) =
     (if ds = [] then c else image_sum (area_opening P img (circle_area (last ds))),
      step_differences (area_opening P) img c ds)"
    by (rule sweep_from_zero) simp
  show ?thesis
    unfolding calc_size_spectrum_locals_def py_range_def swept_image_def Let_def sw
    using assms by (simp only: if_False sum.case prod.case)
qed


lemma locals_step_nonzero:
  "calc_size_spectrum_locals P img0 scale step endv bg_diam = Inr L \<Longrightarrow> step \<noteq> 0"
  by (auto simp: calc_size_spectrum_locals_def py_range_def)

lemma locals_fields:
  assumes "calc_size_spectrum_locals P img0 scale step endv bg_diam = Inr L"
  shows "diams_swept L = map (\<lambda>d. fmul d scale) (map (\<lambda>k. Fin (real_of_int k))
            (1 # map (\<lambda>k. step + int k * step) [0 ..< range_length step endv step]))"
    and "origmean L = image_mean (astype_float img0)"
    and "img_swept L = swept_image P img0 scale bg_diam"
    and "sum0 L = image_sum (img_swept L)"
    and "gs_raw L = step_differences (area_opening P) (img_swept L) (sum0 L) (diams_swept L)"
    and "gs_pct L = map (\<lambda>g. fmul (fdiv g (sum0 L)) (Fin 100)) (gs_raw L)"
    and "diams_out L = map (\<lambda>d. fdiv d scale) (diams_swept L)"
    and "z_int L = trapz (gs_pct L) (diams_out L)"
    and "norm_gs L = map (\<lambda>g. fmul (origmean L) (fdiv g (z_int L))) (gs_pct L)"
proof -
  have nz: "step \<noteq> 0" using assms by (rule locals_step_nonzero)
  note L = assms [unfolded locals_unfold [OF nz] Let_def, THEN Inr_inject, symmetric]
  show "diams_swept L = map (\<lambda>d. fmul d scale) (map (\<lambda>k. Fin (real_of_int k))
            (1 # map (\<lambda>k. step + int k * step) [0 ..< range_length step endv step]))"
    unfolding L by (simp only: locals.simps)
  show "origmean L = image_mean (astype_float img0)"
    unfolding L by (simp only: locals.simps)
  show "img_swept L = swept_image P img0 scale bg_diam"
    unfolding L by (simp only: locals.simps)
  show "sum0 L = image_sum (img_swept L)"
    unfolding L by (simp only: locals.simps)
  show "gs_raw L = step_differences (area_opening P) (img_swept L) (sum0 L) (diams_swept L)"
    unfolding L by (simp only: locals.simps)
  show "gs_pct L = map (\<lambda>g. fmul (fdiv g (sum0 L)) (Fin 100)) (gs_raw L)"
    unfolding L by (simp only: locals.simps)
  show "diams_out L = map (\<lambda>d. fdiv d scale) (diams_swept L)"
    unfolding L by (simp only: locals.simps)
  show "z_int L = trapz (gs_pct L) (diams_out L)"
    unfolding L by (simp only: locals.simps)
  show "norm_gs L = map (\<lambda>g. fmul (origmean L) (fdiv g (z_int L))) (gs_pct L)"
    unfolding L by (simp only: locals.simps)
qed

lemma result_of_locals:
  "calc_size_spectrum P img0 scale step endv bg_diam = Inr (ds, ys) \<Longrightarrow>
   \<exists>L. calc_size_spectrum_locals P img0 scale step endv bg_diam = Inr L
       \<and> ds = diams_out L \<and> ys = norm_gs L"
  by (auto simp: calc_size_spectrum_def split: sum.splits)

lemma locals_total:
  assumes "step \<noteq> 0"
  shows "\<exists>L. calc_size_spectrum_locals P img0 scale step endv bg_diam = Inr L"
  unfolding locals_unfold [OF assms] Let_def by blast

lemma result_from_locals:
  "calc_size_spectrum_locals P img0 scale step endv bg_diam = Inr L \<Longrightarrow>
   calc_size_spectrum P img0 scale step endv bg_diam = Inr (diams_out L, norm_gs L)"
  by (simp add: calc_size_spectrum_def)

lemma length_norm_gs:
  assumes "calc_size_spectrum_locals P img0 scale step endv bg_diam = Inr L"
  shows "length (norm_gs L) = Suc (range_length step endv step)"
  using locals_fields [OF assms] by (simp add: length_step_differences)




section \<open>The example runs\<close>

lemmas run_defs = calc_size_spectrum_locals_def py_range_def range_length_def
  circle_area_def image_sum_def image_mean_def fsum_def trapz_def fsub_def fne_def Let_def

lemma pi_not_above_4: "\<not> 4 < pi"
  using pi_less_4 by simp

lemma pi_above_1: "1 < pi" "1 < pi * 4"
  using pi_ge_two by simp_all

lemma example_run:
  "calc_size_spectrum_locals single_pixel example_image (Fin 1) 2 5 (Fin 0) = Inr example_locals"
  by (simp add: run_defs single_pixel_def example_image_def example_locals_def upt_conv_Cons
      pi_not_above_4 pi_above_1)

lemma example_result:
  "calc_size_spectrum single_pixel example_image (Fin 1) 2 5 (Fin 0)
     = Inr ([Fin 1, Fin 2, Fin 4], [Fin 0, Fin (1 / 2), Fin 0])"
  by (simp add: calc_size_spectrum_def example_run) (simp add: example_locals_def)

lemma pi_more: "\<not> 16 < pi" "4 < pi * 9"
  using pi_less_4 pi_ge_two by simp_all

lemma example_run_half:
  "calc_size_spectrum_locals single_pixel example_image (Fin (1 / 2)) 2 7 (Fin 0)
     = Inr example_locals_half"
  by (simp add: run_defs single_pixel_def example_image_def example_locals_half_def upt_conv_Cons
      pi_not_above_4 pi_above_1 pi_more)


lemma image_sum_zeros: "image_sum (replicate m (replicate n (Fin 0))) = Fin 0"
  unfolding image_sum_def by (rule fsum_zeros) auto

lemma image_mean_zeros: "image_mean (replicate 50 (replicate 50 (Fin 0))) = Fin 0"
  by (simp add: image_mean_def image_sum_zeros length_concat sum_list_replicate)

lemma zero_run:
  "calc_size_spectrum_locals unchanged (FloatImage (replicate 50 (replicate 50 (Fin 0))))
     (Fin 1) 5 20 (Fin 0) = Inr zero_locals"
  by (simp add: calc_size_spectrum_locals_def py_range_def range_length_def circle_area_def
      trapz_def fsum_def fsub_def fne_def Let_def unchanged_def zero_locals_def upt_conv_Cons
      image_sum_zeros image_mean_zeros)

section \<open>The claims\<close>

text \<open>
  C1: the i-th raw spectrum value that \<^verbatim>\<open>calc_size_spectrum\<close> stores is
  \<open>prevint - curint\<close>. Here \<open>curint\<close> is the total intensity of the area opening, with area
  \<open>\<pi> (d / 2)\<^sup>2\<close> for the i-th diameter \<open>d\<close>, of the background-corrected image itself (the
  same image at every step, never the previous opening), and \<open>prevint\<close> is the \<open>curint\<close>
  of the step before, or \<open>sum0\<close>, the total of the background-corrected image, at step 0.
\<close>

theorem raw_value_is_prevint_minus_curint:
  assumes "calc_size_spectrum_locals P img0 scale step endv bg_diam = Inr L"
      and "i < length (diams_swept L)"
  shows "gs_raw L ! i =
           fsub (if i = 0 then sum0 L
                 else image_sum (area_opening P (img_swept L)
                        (circle_area (diams_swept L ! (i - 1)))))
                (image_sum (area_opening P (img_swept L) (circle_area (diams_swept L ! i))))
         \<and> sum0 L = image_sum (img_swept L)
         \<and> img_swept L = swept_image P img0 scale bg_diam
         \<and> length (gs_raw L) = length (diams_swept L)
         \<and> circle_area (Fin r) = Fin (pi * (r / 2)\<^sup>2)"
proof -
  note f = locals_fields [OF assms(1)]
  have "gs_raw L ! i =
           fsub (if i = 0 then sum0 L
                 else image_sum (area_opening P (img_swept L)
                        (circle_area (diams_swept L ! (i - 1)))))
                (image_sum (area_opening P (img_swept L) (circle_area (diams_swept L ! i))))"
    unfolding f(5) using assms(2) by (rule step_differences_nth)
  moreover have "length (gs_raw L) = length (diams_swept L)"
    unfolding f(5) by (rule length_step_differences)
  moreover have "circle_area (Fin r) = Fin (pi * (r / 2)\<^sup>2)"
    by (simp add: circle_area_def power2_eq_square)
  ultimately show ?thesis using f(3) f(4) by simp
qed

theorem raw_value_is_prevint_minus_curint_witness:
  "calc_size_spectrum_locals single_pixel example_image (Fin 1) 2 5 (Fin 0) = Inr example_locals
   \<and> (1::nat) < length (diams_swept example_locals)
   \<and> gs_raw example_locals ! 1 =
       fsub (image_sum (area_opening single_pixel (img_swept example_locals) (circle_area (Fin 1))))
            (image_sum (area_opening single_pixel (img_swept example_locals) (circle_area (Fin 2))))
   \<and> gs_raw example_locals ! 1 = Fin 3"
proof -
  have i: "(1::nat) < length (diams_swept example_locals)"
    by (simp add: example_locals_def)
  have "gs_raw example_locals ! 1 =
       fsub (image_sum (area_opening single_pixel (img_swept example_locals) (circle_area (Fin 1))))
            (image_sum (area_opening single_pixel (img_swept example_locals) (circle_area (Fin 2))))"
    using raw_value_is_prevint_minus_curint [OF example_run i, of 0, THEN conjunct1]
    by (simp add: example_locals_def)
  moreover have "gs_raw example_locals ! 1 = Fin 3"
    by (simp add: example_locals_def)
  ultimately show ?thesis using example_run i by simp
qed

text \<open>
  C9: whenever \<^verbatim>\<open>calc_size_spectrum\<close> returns, the diameter sequence and the spectrum
  curve that it returns have the same length.
\<close>

theorem returned_sequences_equal_length:
  assumes "calc_size_spectrum P img0 scale step endv bg_diam = Inr (ds, ys)"
  shows "length ds = length ys"
proof -
  from result_of_locals [OF assms] obtain L
    where L: "calc_size_spectrum_locals P img0 scale step endv bg_diam = Inr L"
      and ds: "ds = diams_out L" and ys: "ys = norm_gs L"
    by blast
  note f = locals_fields [OF L]
  have "length (diams_out L) = length (diams_swept L)"
    unfolding f(7) by simp
  moreover have "length (norm_gs L) = length (diams_swept L)"
    unfolding f(9) f(6) f(5) by (simp add: length_step_differences)
  ultimately show ?thesis using ds ys by simp
qed

theorem returned_sequences_equal_length_witness:
  "calc_size_spectrum single_pixel example_image (Fin 1) 2 5 (Fin 0)
     = Inr ([Fin 1, Fin 2, Fin 4], [Fin 0, Fin (1 / 2), Fin 0])
   \<and> length [Fin 1, Fin 2, Fin 4] = length [Fin 0, Fin (1 / 2), Fin 0]"
proof -
  have run: "calc_size_spectrum single_pixel example_image (Fin 1) 2 5 (Fin 0)
     = Inr ([Fin 1, Fin 2, Fin 4], [Fin 0, Fin (1 / 2), Fin 0])"
    by (simp add: calc_size_spectrum_def example_run) (simp add: example_locals_def)
  show ?thesis
    using run returned_sequences_equal_length [OF run] by simp
qed

text \<open>
  C5, as the code has it: for positive \<open>step\<close> and \<open>end > step\<close> the call returns and the
  spectrum has \<open>1 + floor((end - 1) / step)\<close> values: the diameter 1 and the multiples of
  \<open>step\<close> below \<open>end\<close>.
\<close>

theorem spectrum_length:
  assumes "0 < step" and "step < endv"
  shows "\<exists>ds ys. calc_size_spectrum P img0 scale step endv bg_diam = Inr (ds, ys)
           \<and> int (length ys) = 1 + (endv - 1) div step"
proof -
  from assms(1) have "step \<noteq> 0" by simp
  from locals_total [OF this] obtain L
    where L: "calc_size_spectrum_locals P img0 scale step endv bg_diam = Inr L" by blast
  have "0 \<le> (endv - 1) div step"
    using assms by (simp add: pos_imp_zdiv_nonneg_iff)
  then have "int (length (norm_gs L)) = 1 + (endv - 1) div step"
    using length_norm_gs [OF L] range_length_multiples [OF assms] by simp
  then show ?thesis using result_from_locals [OF L] by blast
qed

theorem spectrum_length_witness:
  "(0::int) < 2 \<and> (2::int) < 5
   \<and> calc_size_spectrum single_pixel example_image (Fin 1) 2 5 (Fin 0)
       = Inr ([Fin 1, Fin 2, Fin 4], [Fin 0, Fin (1 / 2), Fin 0])
   \<and> int (length [Fin 0, Fin (1 / 2), Fin 0]) = 1 + (5 - 1) div 2"
proof -
  have a: "(0::int) < 2" and b: "(2::int) < 5" by simp_all
  from spectrum_length [OF a b, of single_pixel example_image "Fin 1" "Fin 0"]
  show ?thesis using example_result by simp
qed

text \<open>
  C5 as stated gives \<open>1 + floor((end - 1 - 1) / step)\<close>: with \<open>step = 2\<close> and \<open>end = 5\<close>
  that is 2, while the diameters are 1, 2 and 4 and the spectrum has 3 values.
\<close>

theorem spectrum_length_counterexample:
  "(0::int) < 2 \<and> (2::int) < 5
   \<and> calc_size_spectrum single_pixel example_image (Fin 1) 2 5 (Fin 0)
       = Inr ([Fin 1, Fin 2, Fin 4], [Fin 0, Fin (1 / 2), Fin 0])
   \<and> int (length [Fin 0, Fin (1 / 2), Fin 0]) \<noteq> 1 + (5 - 1 - 1) div 2"
  using example_result by simp




text \<open>
  C7: \<open>origmean\<close>, the factor of the returned spectrum, is the mean of the caller's image
  after the conversion to float only: neither \<open>scale\<close> and \<^verbatim>\<open>rescale\<close> nor
  \<open>bg_diam\<close> and \<^verbatim>\<open>rolling_ball\<close> enter it.
\<close>

theorem origmean_of_original_image:
  assumes "calc_size_spectrum_locals P img0 scale step endv bg_diam = Inr L"
  shows "origmean L = image_mean (astype_float img0)
       \<and> norm_gs L = map (\<lambda>g. fmul (image_mean (astype_float img0)) (fdiv g (z_int L)))
                          (gs_pct L)"
  using locals_fields(2,9) [OF assms] by simp

theorem origmean_of_original_image_witness:
  "calc_size_spectrum_locals single_pixel example_image (Fin (1 / 2)) 2 7 (Fin 0)
     = Inr example_locals_half
   \<and> origmean example_locals_half = image_mean (astype_float example_image)
   \<and> image_mean (astype_float example_image) = Fin (3 / 4)"
proof -
  have "image_mean (astype_float example_image) = Fin (3 / 4)"
    by (simp add: example_image_def image_mean_def image_sum_def fsum_def)
  then show ?thesis
    using example_run_half origmean_of_original_image [OF example_run_half] by simp
qed




text \<open>
  C6, as the code has it: the bypass is the test \<^verbatim>\<open>if bg_diam > 0\<close> of
  \<^verbatim>\<open>calc_size_spectrum\<close>. For \<open>bg_diam \<le> 0\<close> the image that is swept is the converted
  (and, for \<open>scale \<noteq> 1\<close>, rescaled) image unmodified, and the result is the same whatever
  \<^verbatim>\<open>rolling_ball\<close> would compute.
\<close>

theorem background_bypass_in_caller:
  assumes "calc_size_spectrum_locals P img0 scale step endv (Fin b) = Inr L" and "b \<le> 0"
  shows "img_swept L = (if fne scale (Fin 1) then rescale P (astype_float img0) scale
                        else astype_float img0)
       \<and> calc_size_spectrum_locals (P\<lparr>rolling_ball := rb\<rparr>) img0 scale step endv (Fin b) = Inr L"
proof -
  have g: "\<not> fgt (Fin b) (Fin 0)" using assms(2) by simp
  have "img_swept L = (if fne scale (Fin 1) then rescale P (astype_float img0) scale
                        else astype_float img0)"
    unfolding locals_fields(3) [OF assms(1)] swept_image_def Let_def using g by simp
  moreover have "calc_size_spectrum_locals (P\<lparr>rolling_ball := rb\<rparr>) img0 scale step endv (Fin b)
      = calc_size_spectrum_locals P img0 scale step endv (Fin b)"
    unfolding calc_size_spectrum_locals_def Let_def using g
    by (simp split: sum.split prod.split)
  ultimately show ?thesis using assms(1) by simp
qed

theorem background_bypass_in_caller_witness:
  "calc_size_spectrum_locals single_pixel example_image (Fin 1) 2 5 (Fin 0) = Inr example_locals
   \<and> (0::real) \<le> 0
   \<and> img_swept example_locals = astype_float example_image
   \<and> calc_size_spectrum_locals (single_pixel\<lparr>rolling_ball := (\<lambda>img r. [])\<rparr>)
         example_image (Fin 1) 2 5 (Fin 0) = Inr example_locals"
proof -
  have b: "(0::real) \<le> 0" by simp
  note t = background_bypass_in_caller [OF example_run b, of "\<lambda>img r. []"]
  have "img_swept example_locals = astype_float example_image"
    using t [THEN conjunct1] by (simp add: fne_def)
  then show ?thesis using example_run t [THEN conjunct2] by simp
qed

text \<open>
  C6 as stated is about \<^verbatim>\<open>remove_background\<close>, which has no bypass: with \<open>d = 0\<close> it
  subtracts the background under a ball of radius 0, the image itself, and returns
  zeros instead of the image.
\<close>

theorem remove_background_counterexample:
  "(0::real) \<le> 0
   \<and> remove_background unchanged (FloatImage [[Fin 1]]) (Fin 0) = [[Fin 0]]
   \<and> astype_float (FloatImage [[Fin 1]]) \<noteq> [[Fin 0]]"
  by (simp add: remove_background_def unchanged_def image_sub_def fsub_def)

text \<open>
  C4, as the code has it: \<^verbatim>\<open>calc_size_spectrum\<close> has no check of \<open>sum0\<close>. When the
  background-corrected total \<open>sum0\<close> is 0 the call returns all the same, and every value
  of the returned spectrum is \<open>nan\<close> or an infinity.
\<close>

theorem zero_total_gives_non_finite_spectrum:
  assumes "calc_size_spectrum_locals P img0 scale step endv bg_diam = Inr L"
      and "sum0 L = Fin 0"
  shows "calc_size_spectrum P img0 scale step endv bg_diam = Inr (diams_out L, norm_gs L)
       \<and> norm_gs L \<noteq> [] \<and> (\<forall>y\<in>set (norm_gs L). \<not> is_fin y)"
proof -
  note f = locals_fields [OF assms(1)]
  have pct: "\<forall>g\<in>set (gs_pct L). \<not> is_fin g"
    unfolding f(6) assms(2) by (simp add: is_fin_fmul not_fin_fdiv_zero)
  have "\<forall>y\<in>set (norm_gs L). \<not> is_fin y"
  proof
    fix y assume "y \<in> set (norm_gs L)"
    then obtain g where g: "g \<in> set (gs_pct L)" and y: "y = fmul (origmean L) (fdiv g (z_int L))"
      unfolding f(9) by auto
    from pct g have "\<not> is_fin g" by blast
    then have "\<not> is_fin (fdiv g (z_int L))" using is_fin_fdiv_num by blast
    then show "\<not> is_fin y" unfolding y by (simp add: is_fin_fmul)
  qed
  moreover have "norm_gs L \<noteq> []"
    using length_norm_gs [OF assms(1)] by auto
  ultimately show ?thesis using result_from_locals [OF assms(1)] by simp
qed

theorem zero_total_gives_non_finite_spectrum_witness:
  "calc_size_spectrum_locals unchanged (FloatImage (replicate 50 (replicate 50 (Fin 0))))
     (Fin 1) 5 20 (Fin 0) = Inr zero_locals
   \<and> sum0 zero_locals = Fin 0
   \<and> norm_gs zero_locals = [NaN, NaN, NaN, NaN]
   \<and> \<not> is_fin (norm_gs zero_locals ! 0)"
proof -
  have s: "sum0 zero_locals = Fin 0" by (simp add: zero_locals_def)
  have n: "norm_gs zero_locals = [NaN, NaN, NaN, NaN]" by (simp add: zero_locals_def)
  have "\<not> is_fin (norm_gs zero_locals ! 0)"
    using zero_total_gives_non_finite_spectrum [OF zero_run s] by (simp add: n)
  then show ?thesis using zero_run s n by simp
qed


text \<open>
  C4 as stated has the all-zero 50 by 50 image raise \<^verbatim>\<open>DegenerateImage\<close> and never return
  \<open>nan\<close>: the call (unscaled, no background removal, \<open>step = 5\<close>, \<open>end = 20\<close>) returns
  four diameters and four times \<open>nan\<close>.
\<close>

theorem degenerate_image_counterexample:
  "calc_size_spectrum unchanged (FloatImage (replicate 50 (replicate 50 (Fin 0))))
     (Fin 1) 5 20 (Fin 0) = Inr ([Fin 1, Fin 5, Fin 10, Fin 15], [NaN, NaN, NaN, NaN])"
  by (simp add: calc_size_spectrum_def zero_run) (simp add: zero_locals_def)







end
